theory Spec2Isabelle
  imports Complex_Main "HOL-Library.Word" "HOL-Library.Sublist"
begin

section \<open>JavaScript strings\<close>

text \<open>
  A JavaScript string is a sequence of 16-bit UTF-16 code units: \<open>indexOf\<close>, \<open>slice\<close>
  and \<open>trim\<close> all count and compare code units. The literals of \<^verbatim>\<open>route.ts\<close> and
  of the handlers of \<^verbatim>\<open>page.tsx\<close> modelled here are ASCII, so a literal is written
  \<open>str ''...''\<close>.
\<close>

type_synonym code_unit = "16 word"
type_synonym jsstring = "code_unit list"

definition str :: "string \<Rightarrow> jsstring" where
  "str s = map of_char s"

text \<open>
  \<open>String.prototype.indexOf(searchString, position)\<close>: the smallest index \<open>k\<close>, not
  below the position clamped into \<open>[0, length]\<close>, at which the search string occurs;
  \<open>-1\<close> when there is none. \<open>find_from pat xs k\<close> scans the rest \<open>xs\<close> of the string,
  which starts at index \<open>k\<close>.
\<close>

fun find_from :: "'a list \<Rightarrow> 'a list \<Rightarrow> nat \<Rightarrow> nat option" where
  "find_from pat [] k = (if pat = [] then Some k else None)"
| "find_from pat (x # xs) k =
     (if prefix pat (x # xs) then Some k else find_from pat xs (Suc k))"

definition indexOf :: "jsstring \<Rightarrow> jsstring \<Rightarrow> int \<Rightarrow> int" where
  "indexOf s pat position =
     (let k = nat (min (max position 0) (int (length s)))
      in case find_from pat (drop k s) k of None \<Rightarrow> - 1 | Some i \<Rightarrow> int i)"

text \<open>
  \<open>String.prototype.lastIndexOf(searchString)\<close> with no position: the largest index at
  which the search string occurs, \<open>-1\<close> when there is none.
\<close>

fun find_last :: "'a list \<Rightarrow> 'a list \<Rightarrow> nat \<Rightarrow> nat option" where
  "find_last pat [] k = (if pat = [] then Some k else None)"
| "find_last pat (x # xs) k =
     (case find_last pat xs (Suc k) of
        Some i \<Rightarrow> Some i
      | None \<Rightarrow> if prefix pat (x # xs) then Some k else None)"

definition lastIndexOf :: "jsstring \<Rightarrow> jsstring \<Rightarrow> int" where
  "lastIndexOf s pat = (case find_last pat s 0 of None \<Rightarrow> - 1 | Some i \<Rightarrow> int i)"

text \<open>
  \<open>String.prototype.slice(start, end)\<close>: a negative index counts from the end, both
  indices are clamped into \<open>[0, length]\<close>, and the result is empty when the clamped
  start is not below the clamped end.
\<close>

definition slice :: "jsstring \<Rightarrow> int \<Rightarrow> int \<Rightarrow> jsstring" where
  "slice s start end =
     (let len = int (length s);
          from = (if start < 0 then max (len + start) 0 else min start len);
          to = (if end < 0 then max (len + end) 0 else min end len)
      in if to \<le> from then [] else take (nat (to - from)) (drop (nat from) s))"

text \<open>
  \<open>String.prototype.trim()\<close> removes the leading and trailing code units that are
  ECMAScript WhiteSpace or LineTerminator: TAB, LF, VT, FF, CR, SP, NBSP, U+1680,
  U+2000..U+200A, U+2028, U+2029, U+202F, U+205F, U+3000 and U+FEFF.
\<close>

definition is_white :: "code_unit \<Rightarrow> bool" where
  "is_white c \<longleftrightarrow>
     c \<in> {0x9, 0xA, 0xB, 0xC, 0xD, 0x20, 0xA0, 0x1680,
          0x2000, 0x2001, 0x2002, 0x2003, 0x2004, 0x2005, 0x2006, 0x2007, 0x2008,
          0x2009, 0x200A, 0x2028, 0x2029, 0x202F, 0x205F, 0x3000, 0xFEFF}"

definition trim :: "jsstring \<Rightarrow> jsstring" where
  "trim s = rev (dropWhile is_white (rev (dropWhile is_white s)))"

section \<open>The response normalizer of \<^verbatim>\<open>src/app/api/chat/route.ts\<close>\<close>

subsection \<open>Single-question enforcement\<close>

definition question_mark :: code_unit where
  "question_mark = of_char CHR ''?''"

definition enforceSingleQuestion :: "jsstring \<Rightarrow> jsstring" where
  "enforceSingleQuestion reply =
     (let first = indexOf reply [question_mark] 0
      in if first = - 1 then trim reply
         else let second = indexOf reply [question_mark] (first + 1)
              in if second = - 1 then trim reply
                 else trim (slice reply 0 (first + 1)))"

subsection \<open>JavaScript values\<close>

text \<open>
  The values the normalizer inspects come out of \<open>JSON.parse\<close>, or are \<open>undefined\<close>
  (a missing property). A finite number is the exact rational value of its double;
  the sign of zero is not kept, which no operation below can observe
  (\<open>Math.max(0, -0)\<close> is \<open>+0\<close>). An object is the list of its own properties.
\<close>

datatype jsnum = NaN | PosInf | NegInf | Fin rat

datatype jsvalue =
    JUndefined
  | JNull
  | JBool bool
  | JNum jsnum
  | JStr jsstring
  | JArr "jsvalue list"
  | JObj "(jsstring \<times> jsvalue) list"

datatype jstype = Type_undefined | Type_object | Type_boolean | Type_number | Type_string

text \<open>\<open>typeof\<close>: \<open>null\<close> and arrays are of type \<open>"object"\<close>.\<close>

fun typeof :: "jsvalue \<Rightarrow> jstype" where
  "typeof JUndefined = Type_undefined"
| "typeof JNull = Type_object"
| "typeof (JBool b) = Type_boolean"
| "typeof (JNum n) = Type_number"
| "typeof (JStr s) = Type_string"
| "typeof (JArr xs) = Type_object"
| "typeof (JObj kvs) = Type_object"

text \<open>ToBoolean, as used by \<open>!\<close>, \<open>&&\<close>, \<open>||\<close> and \<open>if\<close>.\<close>

fun truthy :: "jsvalue \<Rightarrow> bool" where
  "truthy JUndefined = False"
| "truthy JNull = False"
| "truthy (JBool b) = b"
| "truthy (JNum n) = (n \<noteq> NaN \<and> n \<noteq> Fin 0)"
| "truthy (JStr s) = (s \<noteq> [])"
| "truthy (JArr xs) = True"
| "truthy (JObj kvs) = True"

text \<open>
  What a \<open>throw\<close> carries: an \<open>Error\<close> object with its message, or any other value.
\<close>

datatype thrown = Error jsstring | NonError

definition bind_thrown :: "thrown + 'a \<Rightarrow> ('a \<Rightarrow> thrown + 'b) \<Rightarrow> thrown + 'b" where
  "bind_thrown m f = (case m of Inl e \<Rightarrow> Inl e | Inr x \<Rightarrow> f x)"

text \<open>
  Property read \<open>v.k\<close>, for the property names the code reads (\<open>reply\<close>,
  \<open>evaluation\<close>, \<open>status\<close>, \<open>score\<close>, \<open>weakConcepts\<close>, \<open>nextActions\<close>,
  \<open>summary\<close>, and \<open>apiKey\<close> and \<open>model\<close> of the request body): none of them
  is a property of an array, a string, a number, a boolean or of \<open>Object.prototype\<close>,
  so only an object's own property gives a value. On \<open>null\<close> and \<open>undefined\<close> the
  read throws a TypeError (with V8's message).
\<close>

fun get_prop :: "jsvalue \<Rightarrow> jsstring \<Rightarrow> thrown + jsvalue" where
  "get_prop JUndefined k =
     Inl (Error (str ''Cannot read properties of undefined (reading '' @ [0x27] @ k @ [0x27] @ str '')''))"
| "get_prop JNull k =
     Inl (Error (str ''Cannot read properties of null (reading '' @ [0x27] @ k @ [0x27] @ str '')''))"
| "get_prop (JObj kvs) k = Inr (case map_of kvs k of None \<Rightarrow> JUndefined | Some v \<Rightarrow> v)"
| "get_prop v k = Inr JUndefined"

text \<open>Optional chaining \<open>v?.k\<close>.\<close>

definition get_prop_opt :: "jsvalue \<Rightarrow> jsstring \<Rightarrow> thrown + jsvalue" where
  "get_prop_opt v k = (if v = JUndefined \<or> v = JNull then Inr JUndefined else get_prop v k)"

text \<open>
  \<open>Math.round\<close> gives the nearest integer, a tie going up; \<open>Math.min\<close> and
  \<open>Math.max\<close> give \<open>NaN\<close> when an argument is \<open>NaN\<close>.
\<close>

fun Math_round :: "jsnum \<Rightarrow> jsnum" where
  "Math_round (Fin x) = Fin (of_int \<lfloor>x + 1 / 2\<rfloor>)"
| "Math_round n = n"

fun num_le :: "jsnum \<Rightarrow> jsnum \<Rightarrow> bool" where
  "num_le NaN b = False"
| "num_le a NaN = False"
| "num_le NegInf b = True"
| "num_le a PosInf = True"
| "num_le (Fin x) (Fin y) = (x \<le> y)"
| "num_le a b = False"

definition Math_min :: "jsnum \<Rightarrow> jsnum \<Rightarrow> jsnum" where
  "Math_min a b = (if a = NaN \<or> b = NaN then NaN else if num_le a b then a else b)"

definition Math_max :: "jsnum \<Rightarrow> jsnum \<Rightarrow> jsnum" where
  "Math_max a b = (if a = NaN \<or> b = NaN then NaN else if num_le a b then b else a)"

subsection \<open>Extraction of the embedded JSON document\<close>

text \<open>
  \<open>JSON.parse\<close> is the platform's; it is a parameter \<open>parse\<close> here, returning the
  parsed value or the SyntaxError it throws. \<open>extractJson\<close> catches the throw and
  returns \<open>null\<close>.
\<close>

definition extractJson :: "(jsstring \<Rightarrow> thrown + jsvalue) \<Rightarrow> jsstring \<Rightarrow> jsvalue" where
  "extractJson parse text =
     (let start = indexOf text (str ''{'') 0;
          end = lastIndexOf text (str ''}'')
      in if start = - 1 \<or> end = - 1 \<or> end \<le> start then JNull
         else let candidate = slice text start (end + 1)
              in case parse candidate of Inr v \<Rightarrow> v | Inl e \<Rightarrow> JNull)"

subsection \<open>Evaluation normalization\<close>

record Evaluation =
  status :: jsstring
  score :: jsnum
  weakConcepts :: "jsvalue list"
  nextActions :: "jsvalue list"
  summary :: jsvalue

definition string_items :: "jsvalue \<Rightarrow> jsvalue list" where
  "string_items v =
     (case v of JArr items \<Rightarrow> filter (\<lambda>item. typeof item = Type_string) items | _ \<Rightarrow> [])"

definition normalizeEvaluation :: "jsvalue \<Rightarrow> thrown + Evaluation option" where
  "normalizeEvaluation v =
     (if \<not> truthy v \<or> typeof v \<noteq> Type_object then Inr None
      else
        bind_thrown (get_prop v (str ''status'')) (\<lambda>status_in.
        bind_thrown (get_prop v (str ''score'')) (\<lambda>score_in.
        bind_thrown (get_prop v (str ''weakConcepts'')) (\<lambda>weak_in.
        bind_thrown (get_prop v (str ''nextActions'')) (\<lambda>next_in.
        bind_thrown (get_prop v (str ''summary'')) (\<lambda>summary_in.
          let status_out =
                (if status_in = JStr (str ''Aprobado'') then str ''Aprobado''
                 else str ''En proceso'');
              score_fin = (case score_in of JNum (Fin x) \<Rightarrow> Fin x | _ \<Rightarrow> Fin 0);
              weak = string_items weak_in;
              next = string_items next_in
          in Inr (Some \<lparr>status = status_out,
                score = Math_max (Fin 0) (Math_min (Fin 100) (Math_round score_fin)),
                weakConcepts = weak,
                nextActions = next,
                summary = (if typeof summary_in = Type_string then summary_in
                           else JUndefined)\<rparr>)))))))"

subsection \<open>From the raw output text to the response\<close>

datatype response =
    Ok_response jsstring "Evaluation option"
  | Error_response nat jsstring

text \<open>
  The statements of \<open>POST\<close> that follow the upstream call, inside its \<open>try\<close>:
  \<open>output_text\<close> is the raw text of the model, \<open>None\<close> when it is \<open>undefined\<close>.
\<close>

definition normalizeOutput ::
  "(jsstring \<Rightarrow> thrown + jsvalue) \<Rightarrow> jsstring option \<Rightarrow> thrown + response" where
  "normalizeOutput parse output_text =
     (let outputText = (case output_text of None \<Rightarrow> [] | Some t \<Rightarrow> if t = [] then [] else t);
          parsed = extractJson parse outputText
      in bind_thrown
           (if truthy parsed
            then bind_thrown (get_prop parsed (str ''reply'')) (\<lambda>r.
                   Inr (case r of JStr t \<Rightarrow> t | _ \<Rightarrow> outputText))
            else Inr outputText) (\<lambda>rawReply.
         let reply = enforceSingleQuestion rawReply
         in bind_thrown (get_prop_opt parsed (str ''evaluation'')) (\<lambda>ev_in.
            bind_thrown (normalizeEvaluation ev_in) (\<lambda>evaluation.
              Inr (Ok_response reply evaluation)))))"

section \<open>The context builder and the endpoint of \<^verbatim>\<open>src/app/api/chat/route.ts\<close>\<close>

subsection \<open>Request types\<close>

datatype Role = User | Assistant | System

text \<open>
  A message of the request body may carry more fields than the two the type declares
  (the client's messages have an identifier and a timestamp): they are the extension
  of the record.
\<close>

record IncomingMessage =
  role :: Role
  content :: jsstring

record TaskConfig =
  topic :: "jsstring option"
  objective :: "jsstring option"
  subject :: "jsstring option"
  grade :: "jsstring option"
  durationMin :: "jsstring option"

record StudentProfile =
  name :: "jsstring option"
  age :: "jsstring option"
  course :: "jsstring option"
  strengths :: "jsstring option"
  challenges :: "jsstring option"

record 'm ChatRequest =
  messages :: "'m IncomingMessage_scheme list option"
  systemPrompt :: "jsstring option"
  model :: "jsstring option"
  apiKey :: "jsstring option"
  taskConfig :: "TaskConfig option"
  student :: "StudentProfile option"
  start :: "bool option"

definition FORMAT_INSTRUCTIONS :: jsstring where
  \<open>FORMAT_INSTRUCTIONS =
     str ''Responde SOLO en JSON valido con este formato: '' @
     str ''{"reply":"...","evaluation":{"status":"Aprobado"|"En proceso","score":0-100,"weakConcepts":["..."],"nextActions":["..."],"summary":"..."}}. '' @
     str ''Reglas para reply: maximo una pregunta (un solo signo ?), si haces una pregunta que sea al final, y no incluyas resumen ni siguientes pasos en reply (eso va en evaluation.summary y nextActions).''\<close>

subsection \<open>The context block\<close>

text \<open>The operator \<open>??\<close> on an optional field.\<close>

definition nullish :: "'a option \<Rightarrow> 'a \<Rightarrow> 'a" where
  "nullish v d = (case v of None \<Rightarrow> d | Some x \<Rightarrow> x)"

definition newline :: jsstring where
  "newline = [0xA]"

fun join :: "jsstring \<Rightarrow> jsstring list \<Rightarrow> jsstring" where
  "join sep [] = []"
| "join sep [x] = x"
| "join sep (x # y # ys) = x @ sep @ join sep (y # ys)"

definition contextLines :: "TaskConfig option \<Rightarrow> StudentProfile option \<Rightarrow> jsstring list" where
  "contextLines task stud =
     (let lines0 = [str ''Contexto de tarea:''];
          lines1 =
            (case task of
               None \<Rightarrow> lines0
             | Some t \<Rightarrow> lines0 @
                 [str ''- Tema: '' @ nullish (topic t) (str ''N/D''),
                  str ''- Objetivo: '' @ nullish (objective t) (str ''N/D''),
                  str ''- Materia: '' @ nullish (subject t) (str ''N/D''),
                  str ''- Grado: '' @ nullish (grade t) (str ''N/D''),
                  str ''- Duracion estimada: '' @ nullish (durationMin t) (str ''N/D'')
                    @ str '' min'']);
          lines2 = lines1 @ [str ''Perfil del alumno:''];
          lines3 =
            (case stud of
               None \<Rightarrow> lines2
             | Some p \<Rightarrow> lines2 @
                 [str ''- Nombre: '' @ nullish (name p) (str ''N/D''),
                  str ''- Edad: '' @ nullish (age p) (str ''N/D''),
                  str ''- Curso: '' @ nullish (course p) (str ''N/D''),
                  str ''- Fortalezas: '' @ nullish (strengths p) (str ''N/D''),
                  str ''- Dificultades: '' @ nullish (challenges p) (str ''N/D'')])
      in lines3)"

definition buildContext :: "TaskConfig option \<Rightarrow> StudentProfile option \<Rightarrow> jsstring" where
  "buildContext task stud = join newline (contextLines task stud)"

subsection \<open>The segments sent to the model\<close>

definition push :: "'a list \<Rightarrow> 'a \<Rightarrow> 'a list" where
  "push xs x = xs @ [x]"

definition buildInput :: "'m ChatRequest \<Rightarrow> IncomingMessage list" where
  "buildInput body =
     (let input0 = [];
          input1 =
            (case systemPrompt body of
               None \<Rightarrow> input0
             | Some p \<Rightarrow>
                 if trim p \<noteq> [] then push input0 \<lparr>role = System, content = trim p\<rparr>
                 else input0);
          input2 = push input1
            \<lparr>role = System, content = buildContext (taskConfig body) (student body)\<rparr>;
          input3 =
            (if start body = Some True
             then push input2
               \<lparr>role = System,
                content = str ''Inicia la conversacion con la primera pregunta al alumno.''\<rparr>
             else input2);
          input4 = push input3 \<lparr>role = System, content = FORMAT_INSTRUCTIONS\<rparr>;
          input5 =
            (case messages body of
               None \<Rightarrow> input4
             | Some ms \<Rightarrow>
                 input4 @ map (\<lambda>message. \<lparr>role = role message, content = content message\<rparr>) ms)
      in input5)"

subsection \<open>The endpoint\<close>

record env =
  OPENAI_API_KEY :: "jsstring option"
  OPENAI_MODEL :: "jsstring option"

text \<open>One call \<open>client.responses.create\<close>, with the key the client was built with.\<close>

record upstream_call =
  call_apiKey :: jsstring
  call_model :: jsstring
  call_input :: "IncomingMessage list"

text \<open>The operator \<open>||\<close> on optional strings: the empty string is falsy.\<close>

definition or_else :: "jsstring option \<Rightarrow> jsstring option \<Rightarrow> jsstring option" where
  "or_else a b = (case a of None \<Rightarrow> b | Some x \<Rightarrow> if x = [] then b else Some x)"

text \<open>
  The cast \<open>as ChatRequest\<close> checks nothing. The functions below give the typed
  view of a parsed body that is of the declared type: an object whose declared
  properties are each missing or of their declared type. Properties the types do not
  declare are never read by the code; those of a message stay in the extension of its
  record.
\<close>

definition own_prop :: "(jsstring \<times> jsvalue) list \<Rightarrow> jsstring \<Rightarrow> jsvalue" where
  "own_prop kvs k = (case map_of kvs k of None \<Rightarrow> JUndefined | Some v \<Rightarrow> v)"

definition asString :: "jsvalue \<Rightarrow> jsstring option option" where
  "asString v = (case v of JUndefined \<Rightarrow> Some None | JStr t \<Rightarrow> Some (Some t) | _ \<Rightarrow> None)"

definition asBoolean :: "jsvalue \<Rightarrow> bool option option" where
  "asBoolean v = (case v of JUndefined \<Rightarrow> Some None | JBool b \<Rightarrow> Some (Some b) | _ \<Rightarrow> None)"

definition asRole :: "jsvalue \<Rightarrow> Role option" where
  "asRole v =
     (if v = JStr (str ''user'') then Some User
      else if v = JStr (str ''assistant'') then Some Assistant
      else if v = JStr (str ''system'') then Some System
      else None)"

definition asMessage ::
  "jsvalue \<Rightarrow> (jsstring \<times> jsvalue) list IncomingMessage_scheme option" where
  "asMessage v =
     (case v of
        JObj kvs \<Rightarrow>
          Option.bind (asRole (own_prop kvs (str ''role''))) (\<lambda>r.
            case own_prop kvs (str ''content'') of
              JStr c \<Rightarrow> Some \<lparr>role = r, content = c, \<dots> = kvs\<rparr>
            | _ \<Rightarrow> None)
      | _ \<Rightarrow> None)"

fun all_some :: "'a option list \<Rightarrow> 'a list option" where
  "all_some [] = Some []"
| "all_some (x # xs) =
     Option.bind x (\<lambda>y. Option.bind (all_some xs) (\<lambda>ys. Some (y # ys)))"

definition asMessages ::
  "jsvalue \<Rightarrow> (jsstring \<times> jsvalue) list IncomingMessage_scheme list option option" where
  "asMessages v =
     (case v of
        JUndefined \<Rightarrow> Some None
      | JArr items \<Rightarrow> Option.bind (all_some (map asMessage items)) (\<lambda>ms. Some (Some ms))
      | _ \<Rightarrow> None)"

definition asTaskConfig :: "jsvalue \<Rightarrow> TaskConfig option option" where
  "asTaskConfig v =
     (case v of
        JUndefined \<Rightarrow> Some None
      | JObj kvs \<Rightarrow>
          Option.bind (asString (own_prop kvs (str ''topic''))) (\<lambda>a.
          Option.bind (asString (own_prop kvs (str ''objective''))) (\<lambda>b.
          Option.bind (asString (own_prop kvs (str ''subject''))) (\<lambda>c.
          Option.bind (asString (own_prop kvs (str ''grade''))) (\<lambda>d.
          Option.bind (asString (own_prop kvs (str ''durationMin''))) (\<lambda>e.
            Some (Some \<lparr>topic = a, objective = b, subject = c, grade = d,
              durationMin = e\<rparr>))))))
      | _ \<Rightarrow> None)"

definition asStudentProfile :: "jsvalue \<Rightarrow> StudentProfile option option" where
  "asStudentProfile v =
     (case v of
        JUndefined \<Rightarrow> Some None
      | JObj kvs \<Rightarrow>
          Option.bind (asString (own_prop kvs (str ''name''))) (\<lambda>a.
          Option.bind (asString (own_prop kvs (str ''age''))) (\<lambda>b.
          Option.bind (asString (own_prop kvs (str ''course''))) (\<lambda>c.
          Option.bind (asString (own_prop kvs (str ''strengths''))) (\<lambda>d.
          Option.bind (asString (own_prop kvs (str ''challenges''))) (\<lambda>e.
            Some (Some \<lparr>name = a, age = b, course = c, strengths = d,
              challenges = e\<rparr>))))))
      | _ \<Rightarrow> None)"

definition asChatRequest :: "jsvalue \<Rightarrow> (jsstring \<times> jsvalue) list ChatRequest option" where
  "asChatRequest v =
     (case v of
        JObj kvs \<Rightarrow>
          Option.bind (asMessages (own_prop kvs (str ''messages''))) (\<lambda>ms.
          Option.bind (asString (own_prop kvs (str ''systemPrompt''))) (\<lambda>p.
          Option.bind (asString (own_prop kvs (str ''model''))) (\<lambda>m.
          Option.bind (asString (own_prop kvs (str ''apiKey''))) (\<lambda>k.
          Option.bind (asTaskConfig (own_prop kvs (str ''taskConfig''))) (\<lambda>t.
          Option.bind (asStudentProfile (own_prop kvs (str ''student''))) (\<lambda>st.
          Option.bind (asBoolean (own_prop kvs (str ''start''))) (\<lambda>b.
            Some \<lparr>messages = ms, systemPrompt = p, model = m, apiKey = k,
              taskConfig = t, student = st, start = b\<rparr>)))))))
      | _ \<Rightarrow> None)"

text \<open>
  Line 111, \<open>process.env.OPENAI_API_KEY || body.apiKey\<close>, on the parsed body as it
  is: the property of the body is read only when the server's key is missing or
  empty, and reading it throws when the body is \<open>null\<close>.
\<close>

definition resolveApiKey :: "env \<Rightarrow> jsvalue \<Rightarrow> thrown + jsvalue" where
  "resolveApiKey e body =
     (case OPENAI_API_KEY e of
        None \<Rightarrow> get_prop body (str ''apiKey'')
      | Some k \<Rightarrow> if k = [] then get_prop body (str ''apiKey'') else Inr (JStr k))"

text \<open>
  How the handler ends: it throws (always before any upstream call, since the call
  and all that follows stand inside the \<open>try\<close>), or it returns a response after the
  upstream calls listed. \<open>Untyped_body\<close> marks what is not modelled: lines 122 to 177
  on a body that has passed the credential guard and line 120 but is not of the
  declared type.
\<close>

datatype ending =
    Throws thrown
  | Responds "upstream_call list" response
  | Untyped_body

text \<open>
  \<open>POST\<close>. \<open>req_json\<close> is what \<open>await req.json()\<close> gives: the parsed body, or the
  rejection of a body that is not JSON. It is awaited, and the body is read at lines
  111 and 120, outside the \<open>try\<close>, so both throw out of the handler. \<open>create\<close> is
  the upstream service: the raw output text, or what the call throws.
\<close>

definition POST ::
  "env \<Rightarrow> thrown + jsvalue \<Rightarrow> (jsstring \<Rightarrow> thrown + jsvalue) \<Rightarrow>
   (upstream_call \<Rightarrow> thrown + jsstring option) \<Rightarrow> ending" where
  "POST e req_json parse create =
     (case req_json of
        Inl rejection \<Rightarrow> Throws rejection
      | Inr body \<Rightarrow>
          (case resolveApiKey e body of
             Inl t \<Rightarrow> Throws t
           | Inr key \<Rightarrow>
               if \<not> truthy key
               then Responds [] (Error_response 400 (str ''Missing OPENAI_API_KEY''))
               else
                 (case get_prop body (str ''model'') of
                    Inl t \<Rightarrow> Throws t
                  | Inr model_read \<Rightarrow>
                      (case (asChatRequest body, key) of
                         (Some b, JStr k) \<Rightarrow>
                           let m = nullish (or_else (or_else (model b) (OPENAI_MODEL e))
                                     (Some (str ''gpt-4.1-mini''))) (str ''gpt-4.1-mini'');
                               input = buildInput b;
                               call = \<lparr>call_apiKey = k, call_model = m, call_input = input\<rparr>
                           in Responds [call]
                                (case bind_thrown (create call) (normalizeOutput parse) of
                                   Inr resp \<Rightarrow> resp
                                 | Inl (Error msg) \<Rightarrow> Error_response 500 msg
                                 | Inl NonError \<Rightarrow>
                                     Error_response 500 (str ''OpenAI request failed''))
                       | _ \<Rightarrow> Untyped_body))))"

section \<open>The chat state of \<^verbatim>\<open>src/app/page.tsx\<close>\<close>

record Message = IncomingMessage +
  id :: jsstring
  ts :: nat

record StoredEvaluation = Evaluation +
  updatedAt :: nat

text \<open>
  The state cells the three chat handlers read and write. The request body that
  \<open>requestTutorReply\<close> builds from the other cells is not modelled: the handlers use
  only what the request returns.
\<close>

record page_state =
  st_messages :: "Message list"
  st_evaluation :: "StoredEvaluation option"
  st_apiError :: jsstring
  st_input :: jsstring
  st_isSending :: bool
  st_useLiveApi :: bool

text \<open>
  \<open>requestTutorReply\<close> on what \<open>fetch\<close> gives: a response that is not ok becomes a
  thrown \<open>Error\<close>, an ok one the pair of \<open>data.text\<close> and \<open>data.evaluation\<close>.
\<close>

definition requestTutorReply ::
  "thrown + response \<Rightarrow> thrown + (jsstring \<times> Evaluation option)" where
  "requestTutorReply fetched =
     bind_thrown fetched (\<lambda>resp.
       case resp of
         Error_response code msg \<Rightarrow>
           Inl (Error (if msg \<noteq> [] then msg else str ''Error en la API''))
       | Ok_response text ev \<Rightarrow> Inr (text, ev))"

text \<open>
  The statements after the \<open>await\<close>, the same in \<open>handleSend\<close> and in
  \<open>handleStartConversation\<close>: \<open>new_id\<close> is \<open>makeId()\<close>, \<open>now\<close> and \<open>now'\<close> are
  the two readings of \<open>Date.now()\<close>.
\<close>

definition finishTurn ::
  "page_state \<Rightarrow> jsstring \<Rightarrow> nat \<Rightarrow> nat \<Rightarrow> thrown + (jsstring \<times> Evaluation option) \<Rightarrow>
   page_state" where
  "finishTurn s new_id now now' outcome =
     (let s' =
        (case outcome of
           Inr (text, ev) \<Rightarrow>
             let replyText = (if text \<noteq> [] then text else str ''Sin respuesta'');
                 assistantMessage =
                   \<lparr>role = Assistant, content = replyText, id = new_id, ts = now\<rparr>;
                 s1 = s\<lparr>st_messages := st_messages s @ [assistantMessage]\<rparr>
             in (case ev of
                   Some e \<Rightarrow> s1\<lparr>st_evaluation := Some (Evaluation.extend e \<lparr>updatedAt = now'\<rparr>)\<rparr>
                 | None \<Rightarrow> s1)
         | Inl (Error msg) \<Rightarrow> s\<lparr>st_apiError := msg\<rparr>
         | Inl NonError \<Rightarrow> s\<lparr>st_apiError := str ''No se pudo contactar la API''\<rparr>)
      in s'\<lparr>st_isSending := False\<rparr>)"

definition handleSend ::
  "page_state \<Rightarrow> jsstring \<Rightarrow> nat \<Rightarrow> jsstring \<Rightarrow> nat \<Rightarrow> nat \<Rightarrow> thrown + response \<Rightarrow>
   page_state" where
  "handleSend s user_id user_ts new_id now now' fetched =
     (if trim (st_input s) = [] \<or> st_isSending s then s
      else if \<not> st_useLiveApi s
      then s\<lparr>st_apiError := str ''La API en vivo esta desactivada. Activala para responder.''\<rparr>
      else
        let userMessage =
              \<lparr>role = User, content = trim (st_input s), id = user_id, ts = user_ts\<rparr>;
            nextMessages = st_messages s @ [userMessage];
            s1 = s\<lparr>st_apiError := [], st_input := [], st_messages := nextMessages,
                   st_isSending := True\<rparr>
        in finishTurn s1 new_id now now' (requestTutorReply fetched))"

definition handleStartConversation ::
  "page_state \<Rightarrow> jsstring \<Rightarrow> nat \<Rightarrow> nat \<Rightarrow> thrown + response \<Rightarrow> page_state" where
  "handleStartConversation s new_id now now' fetched =
     (if st_isSending s then s
      else if \<not> st_useLiveApi s
      then s\<lparr>st_apiError := str ''La API en vivo esta desactivada. Activala para iniciar.''\<rparr>
      else
        let s1 = s\<lparr>st_apiError := [], st_isSending := True\<rparr>
        in finishTurn s1 new_id now now' (requestTutorReply fetched))"

definition handleResetChat :: "page_state \<Rightarrow> page_state" where
  "handleResetChat s = s\<lparr>st_messages := [], st_evaluation := None, st_apiError := []\<rparr>"

section \<open>Properties of the single-question enforcement\<close>

subsection \<open>Searching for a one-code-unit string\<close>

lemma find_from_single:
  "find_from [c] xs k =
     (if c \<in> set xs then Some (k + length (takeWhile (\<lambda>x. x \<noteq> c) xs)) else None)"
  by (induction xs arbitrary: k) auto

lemma find_last_single_None: "find_last [c] xs k = None \<longleftrightarrow> c \<notin> set xs"
proof (induction xs arbitrary: k)
  case Nil
  show ?case by simp
next
  case (Cons x xs)
  show ?case
  proof (cases "find_last [c] xs (Suc k)")
    case None
    with Cons.IH [of "Suc k"] show ?thesis by auto
  next
    case (Some i)
    with Cons.IH [of "Suc k"] show ?thesis by auto
  qed
qed

lemma nat_int_Suc: "nat (int n + 1) = Suc n"
  by arith

lemma takeWhile_upto_first:
  "c \<notin> set pre \<Longrightarrow> takeWhile (\<lambda>x. x \<noteq> c) (pre @ c # post) = pre"
  by (induction pre) auto

lemma indexOf_absent: "c \<notin> set s \<Longrightarrow> indexOf s [c] p = - 1"
  by (auto simp: indexOf_def find_from_single Let_def dest: in_set_dropD)

lemma indexOf_first:
  "c \<notin> set pre \<Longrightarrow> indexOf (pre @ c # post) [c] 0 = int (length pre)"
  by (simp add: indexOf_def find_from_single takeWhile_upto_first)

lemma indexOf_after_first:
  "indexOf (pre @ c # post) [c] (int (length pre) + 1) =
     (if c \<in> set post
      then int (Suc (length pre) + length (takeWhile (\<lambda>x. x \<noteq> c) post)) else - 1)"
proof -
  define k where "k = nat (min (max (int (length pre) + 1) 0) (int (length (pre @ c # post))))"
  have k: "k = Suc (length pre)"
    unfolding k_def by simp
  have "indexOf (pre @ c # post) [c] (int (length pre) + 1) =
      (case find_from [c] (drop k (pre @ c # post)) k of None \<Rightarrow> - 1 | Some i \<Rightarrow> int i)"
    unfolding indexOf_def k_def Let_def ..
  also have "drop k (pre @ c # post) = post"
    by (simp add: k)
  finally show ?thesis
    by (simp add: find_from_single k)
qed

lemma slice_prefix:
  "slice (pre @ c # post) 0 (int (length pre) + 1) = pre @ [c]"
  by (simp add: slice_def Let_def nat_int_Suc)

lemma dropWhile_snoc_stop: "\<not> P y \<Longrightarrow> dropWhile P (xs @ [y]) = dropWhile P xs @ [y]"
  by (induction xs) auto

lemma trim_snoc_stop: "\<not> is_white c \<Longrightarrow> trim (pre @ [c]) = dropWhile is_white pre @ [c]"
  by (simp add: trim_def dropWhile_snoc_stop)

lemma count_list_dropWhile_le: "count_list (dropWhile P xs) c \<le> count_list xs c"
  by (induction xs) auto

lemma count_list_trim_le: "count_list (trim s) c \<le> count_list s c"
proof -
  have "count_list (trim s) c = count_list (dropWhile is_white (rev (dropWhile is_white s))) c"
    by (simp add: trim_def)
  also have "\<dots> \<le> count_list (rev (dropWhile is_white s)) c"
    by (rule count_list_dropWhile_le)
  also have "\<dots> = count_list (dropWhile is_white s) c" by simp
  also have "\<dots> \<le> count_list s c" by (rule count_list_dropWhile_le)
  finally show ?thesis .
qed

lemma question_mark_not_white: "\<not> is_white question_mark"
  by (simp add: question_mark_def is_white_def)

lemma enforce_absent:
  "question_mark \<notin> set reply \<Longrightarrow> enforceSingleQuestion reply = trim reply"
  by (simp add: enforceSingleQuestion_def indexOf_absent)

lemma enforce_split:
  assumes "question_mark \<notin> set pre"
  shows "enforceSingleQuestion (pre @ question_mark # post) =
     (if question_mark \<in> set post then dropWhile is_white pre @ [question_mark]
      else trim (pre @ question_mark # post))"
  using assms
  by (simp add: enforceSingleQuestion_def indexOf_first indexOf_after_first slice_prefix
      trim_snoc_stop question_mark_not_white Let_def del: of_nat_Suc of_nat_add)


text \<open>
  C1. For every reply string the output of the single-question enforcement holds at
  most one question mark. When the input holds two or more, the output is the input cut
  right after its first question mark and then trimmed, so it ends with that question
  mark and holds no other; when the input holds zero or one, the output is the trimmed
  input.
\<close>

theorem enforceSingleQuestion_at_most_one:
  "count_list (enforceSingleQuestion reply) question_mark \<le> 1 \<and>
   (if 2 \<le> count_list reply question_mark
    then \<exists>pre post body.
           reply = pre @ question_mark # post \<and> question_mark \<notin> set pre \<and>
           enforceSingleQuestion reply = trim (pre @ [question_mark]) \<and>
           enforceSingleQuestion reply = body @ [question_mark] \<and>
           question_mark \<notin> set body
    else enforceSingleQuestion reply = trim reply)"
proof (cases "question_mark \<in> set reply")
  case False
  then have "count_list reply question_mark = 0"
    by (simp add: count_list_0_iff)
  moreover from this have "count_list (trim reply) question_mark = 0"
    using count_list_trim_le [of reply question_mark] by simp
  ultimately show ?thesis
    using False by (simp add: enforce_absent)
next
  case True
  then obtain pre post where
    reply: "reply = pre @ question_mark # post" and pre: "question_mark \<notin> set pre"
    by (auto dest: split_list_first)
  from pre have pre0: "count_list pre question_mark = 0"
    by (simp add: count_list_0_iff)
  show ?thesis
  proof (cases "question_mark \<in> set post")
    case True
    then have "count_list post question_mark \<noteq> 0"
      by (simp add: count_list_0_iff)
    then have two: "2 \<le> count_list reply question_mark"
      by (simp add: reply)
    have out: "enforceSingleQuestion reply = dropWhile is_white pre @ [question_mark]"
      using True by (simp add: reply enforce_split [OF pre])
    have body: "question_mark \<notin> set (dropWhile is_white pre)"
      using pre by (auto dest: set_dropWhileD)
    then have "count_list (dropWhile is_white pre) question_mark = 0"
      by (simp add: count_list_0_iff)
    then have "count_list (enforceSingleQuestion reply) question_mark \<le> 1"
      by (simp add: out)
    moreover have "enforceSingleQuestion reply = trim (pre @ [question_mark])"
      by (simp add: out trim_snoc_stop question_mark_not_white)
    ultimately show ?thesis
      using two reply pre out body by auto
  next
    case False
    then have "count_list post question_mark = 0"
      by (simp add: count_list_0_iff)
    then have one: "count_list reply question_mark = 1"
      by (simp add: reply pre0)
    have out: "enforceSingleQuestion reply = trim reply"
      using False by (simp add: reply enforce_split [OF pre])
    have "count_list (trim reply) question_mark \<le> 1"
      using count_list_trim_le [of reply question_mark] one by simp
    then show ?thesis
      using one out by simp
  qed
qed

theorem enforceSingleQuestion_at_most_one_witness:
  "2 \<le> count_list (str '' Hola? Que tal? '') question_mark \<and>
   count_list (enforceSingleQuestion (str '' Hola? Que tal? '')) question_mark \<le> 1 \<and>
   enforceSingleQuestion (str '' Hola? Que tal? '') = str ''Hola?'' \<and>
   enforceSingleQuestion (str '' Que es el agua? '') = trim (str '' Que es el agua? '')"
  using enforceSingleQuestion_at_most_one [of "str '' Hola? Que tal? ''"]
    enforceSingleQuestion_at_most_one [of "str '' Que es el agua? ''"]
  by (simp add: str_def question_mark_def enforceSingleQuestion_def indexOf_def slice_def
      trim_def is_white_def)

section \<open>Properties of the evaluation normalization\<close>

lemma clamp_of_int:
  "Math_max (Fin 0) (Math_min (Fin 100) (Fin (of_int k))) = Fin (of_int (max 0 (min 100 k)))"
  by (auto simp: Math_min_def Math_max_def max_def min_def)

lemma clamp_round:
  "Math_max (Fin 0) (Math_min (Fin 100) (Math_round (Fin x))) =
     Fin (of_int (max 0 (min 100 \<lfloor>x + 1 / 2\<rfloor>)))"
  by (simp only: Math_round.simps clamp_of_int)

lemma floor_half: "\<lfloor>1 / 2 :: rat\<rfloor> = 0"
  by (rule floor_unique) simp_all

lemma clamp_round_zero:
  "Math_max (Fin 0) (Math_min (Fin 100) (Math_round (Fin 0))) = Fin 0"
  by (simp add: Math_max_def Math_min_def floor_half)

lemma round_nearest: "\<bar>of_int \<lfloor>x + 1 / 2\<rfloor> - x\<bar> \<le> 1 / (2 :: rat)"
  by linarith



lemma normalizeEvaluation_Some_cases:
  assumes "normalizeEvaluation v = Inr (Some r)"
  obtains kvs where "v = JObj kvs" | xs where "v = JArr xs"
  using assms by (cases v) (simp_all add: normalizeEvaluation_def)

lemma normalizeEvaluation_JArr:
  "normalizeEvaluation (JArr xs) = Inr (Some
     \<lparr>status = str ''En proceso'', score = Fin 0, weakConcepts = [], nextActions = [],
      summary = JUndefined\<rparr>)"
  by (simp add: normalizeEvaluation_def bind_thrown_def Let_def string_items_def
      clamp_round_zero del: Math_round.simps)

lemma normalizeEvaluation_JObj:
  "normalizeEvaluation (JObj kvs) = Inr (Some
     \<lparr>status = (if map_of kvs (str ''status'') = Some (JStr (str ''Aprobado''))
                then str ''Aprobado'' else str ''En proceso''),
      score = Math_max (Fin 0) (Math_min (Fin 100) (Math_round
                (case map_of kvs (str ''score'') of Some (JNum (Fin x)) \<Rightarrow> Fin x | _ \<Rightarrow> Fin 0))),
      weakConcepts =
        (case map_of kvs (str ''weakConcepts'') of Some w \<Rightarrow> string_items w | None \<Rightarrow> []),
      nextActions =
        (case map_of kvs (str ''nextActions'') of Some w \<Rightarrow> string_items w | None \<Rightarrow> []),
      summary = (case map_of kvs (str ''summary'') of Some (JStr t) \<Rightarrow> JStr t | _ \<Rightarrow> JUndefined)\<rparr>)"
  by (simp add: normalizeEvaluation_def bind_thrown_def Let_def string_items_def
      split: option.split jsvalue.split jsnum.split del: Math_round.simps)

text \<open>
  C3. Whenever the normalization yields a record, its score is an integer between 0 and
  100. When the score read from the input is a finite number \<open>x\<close>, it is the integer
  nearest to \<open>x\<close> (a tie going up), brought to the nearer bound when it lies outside
  \<open>[0, 100]\<close>; for every other input score (missing, not a number, infinite, NaN) it
  is 0.
\<close>

theorem normalizeEvaluation_score:
  assumes "normalizeEvaluation v = Inr (Some r)"
  shows "\<exists>n::int. 0 \<le> n \<and> n \<le> 100 \<and> score r = Fin (of_int n) \<and>
     (case get_prop v (str ''score'') of
        Inr (JNum (Fin x)) \<Rightarrow>
          n = max 0 (min 100 \<lfloor>x + 1 / 2\<rfloor>) \<and> \<bar>of_int \<lfloor>x + 1 / 2\<rfloor> - x\<bar> \<le> 1 / 2
      | _ \<Rightarrow> n = 0)"
  using assms
proof (cases rule: normalizeEvaluation_Some_cases)
  case (2 xs)
  with assms have "score r = Fin (of_int 0)"
    by (auto simp: normalizeEvaluation_JArr)
  with 2 show ?thesis by auto
next
  case (1 kvs)
  define sc where "sc = (case map_of kvs (str ''score'') of None \<Rightarrow> JUndefined | Some x \<Rightarrow> x)"
  have g: "get_prop v (str ''score'') = Inr sc"
    by (simp add: 1 sc_def)
  have r: "score r = Math_max (Fin 0) (Math_min (Fin 100) (Math_round
      (case sc of JNum (Fin x) \<Rightarrow> Fin x | _ \<Rightarrow> Fin 0)))"
    using assms unfolding 1 normalizeEvaluation_JObj sc_def
    by (auto split: option.split)
  show ?thesis
  proof (cases "\<exists>x. sc = JNum (Fin x)")
    case True
    then obtain x where x: "sc = JNum (Fin x)" ..
    have "score r = Fin (of_int (max 0 (min 100 \<lfloor>x + 1 / 2\<rfloor>)))"
      unfolding r x by (simp add: clamp_round del: Math_round.simps)
    moreover have "\<bar>of_int \<lfloor>x + 1 / 2\<rfloor> - x\<bar> \<le> 1 / 2"
      by (rule round_nearest)
    ultimately show ?thesis
      unfolding g x by (intro exI [of _ "max 0 (min 100 \<lfloor>x + 1 / 2\<rfloor>)"]) simp
  next
    case False
    then have "(case sc of JNum (Fin x) \<Rightarrow> Fin x | _ \<Rightarrow> Fin 0) = Fin 0"
      by (auto split: jsvalue.split jsnum.split)
    then have "score r = Fin (of_int 0)"
      unfolding r by (simp add: clamp_round_zero del: Math_round.simps)
    then show ?thesis
      unfolding g using False
      by (intro exI [of _ 0]) (auto split: jsvalue.split jsnum.split)
  qed
qed

theorem normalizeEvaluation_score_witness:
  "normalizeEvaluation (JObj [(str ''status'', JStr (str ''Aprobado'')),
       (str ''score'', JNum (Fin 145))]) =
     Inr (Some \<lparr>status = str ''Aprobado'', score = Fin 100, weakConcepts = [],
       nextActions = [], summary = JUndefined\<rparr>) \<and>
   normalizeEvaluation (JObj [(str ''score'', JNum (Fin (145 / 2)))]) =
     Inr (Some \<lparr>status = str ''En proceso'', score = Fin 73, weakConcepts = [],
       nextActions = [], summary = JUndefined\<rparr>) \<and>
   (\<exists>n::int. 0 \<le> n \<and> n \<le> 100 \<and> Fin 100 = Fin (of_int n)) \<and>
   (\<exists>n::int. 0 \<le> n \<and> n \<le> 100 \<and> Fin 73 = Fin (of_int n))"
proof -
  have h: "normalizeEvaluation (JObj [(str ''status'', JStr (str ''Aprobado'')),
       (str ''score'', JNum (Fin 145))]) =
     Inr (Some \<lparr>status = str ''Aprobado'', score = Fin 100, weakConcepts = [],
       nextActions = [], summary = JUndefined\<rparr>)"
    by (simp add: normalizeEvaluation_JObj clamp_round str_def del: Math_round.simps)
  have h': "normalizeEvaluation (JObj [(str ''score'', JNum (Fin (145 / 2)))]) =
     Inr (Some \<lparr>status = str ''En proceso'', score = Fin 73, weakConcepts = [],
       nextActions = [], summary = JUndefined\<rparr>)"
    by (simp add: normalizeEvaluation_JObj clamp_round str_def del: Math_round.simps)
  from normalizeEvaluation_score [OF h] obtain n :: int
    where "0 \<le> n" "n \<le> 100" "Fin 100 = Fin (of_int n)"
    by auto
  moreover from normalizeEvaluation_score [OF h'] obtain m :: int
    where "0 \<le> m" "m \<le> 100" "Fin 73 = Fin (of_int m)"
    by auto
  ultimately show ?thesis
    using h h' by blast
qed




text \<open>
  C5, as the code has it. The normalization returns \<open>null\<close> for \<open>undefined\<close>,
  \<open>null\<close>, a boolean, a number and a string. For an object it returns a record with
  all its fields, whose summary is the input's summary when that is a string and is
  left out otherwise. An array passes the guard as well (\<open>typeof\<close> calls it an
  object) and gives the record of the defaults.
\<close>

theorem normalizeEvaluation_null_or_record:
  "normalizeEvaluation JUndefined = Inr None \<and>
   normalizeEvaluation JNull = Inr None \<and>
   normalizeEvaluation (JBool b) = Inr None \<and>
   normalizeEvaluation (JNum n) = Inr None \<and>
   normalizeEvaluation (JStr t) = Inr None \<and>
   (\<exists>r. normalizeEvaluation (JObj kvs) = Inr (Some r) \<and>
      summary r =
        (case map_of kvs (str ''summary'') of Some (JStr u) \<Rightarrow> JStr u | _ \<Rightarrow> JUndefined)) \<and>
   normalizeEvaluation (JArr xs) =
     Inr (Some \<lparr>status = str ''En proceso'', score = Fin 0, weakConcepts = [],
       nextActions = [], summary = JUndefined\<rparr>)"
proof -
  have "normalizeEvaluation JUndefined = Inr None" "normalizeEvaluation JNull = Inr None"
    "normalizeEvaluation (JBool b) = Inr None" "normalizeEvaluation (JNum n) = Inr None"
    "normalizeEvaluation (JStr t) = Inr None"
    by (simp_all add: normalizeEvaluation_def)
  moreover have "\<exists>r. normalizeEvaluation (JObj kvs) = Inr (Some r) \<and>
      summary r =
        (case map_of kvs (str ''summary'') of Some (JStr u) \<Rightarrow> JStr u | _ \<Rightarrow> JUndefined)"
    unfolding normalizeEvaluation_JObj by simp
  ultimately show ?thesis
    unfolding normalizeEvaluation_JArr by simp
qed

theorem normalizeEvaluation_null_or_record_witness:
  "normalizeEvaluation (JStr (str ''Aprobado'')) = Inr None \<and>
   normalizeEvaluation (JObj [(str ''summary'', JStr (str ''Buen avance''))]) =
     Inr (Some \<lparr>status = str ''En proceso'', score = Fin 0, weakConcepts = [],
       nextActions = [], summary = JStr (str ''Buen avance'')\<rparr>) \<and>
   normalizeEvaluation (JObj [(str ''summary'', JNum (Fin 3))]) =
     Inr (Some \<lparr>status = str ''En proceso'', score = Fin 0, weakConcepts = [],
       nextActions = [], summary = JUndefined\<rparr>)"
  using normalizeEvaluation_null_or_record
      [where t = "str ''Aprobado''" and kvs = "[(str ''summary'', JStr (str ''Buen avance''))]"]
    normalizeEvaluation_null_or_record [where kvs = "[(str ''summary'', JNum (Fin 3))]"]
  by (simp add: normalizeEvaluation_JObj clamp_round_zero str_def del: Math_round.simps)

text \<open>
  An array is not an object of the data model, yet the normalization of the array
  \<open>[1, 2]\<close> is a record, not \<open>null\<close>.
\<close>

theorem normalizeEvaluation_array_counterexample:
  "normalizeEvaluation (JArr [JNum (Fin 1), JNum (Fin 2)]) =
     Inr (Some \<lparr>status = str ''En proceso'', score = Fin 0, weakConcepts = [],
       nextActions = [], summary = JUndefined\<rparr>) \<and>
   normalizeEvaluation (JArr [JNum (Fin 1), JNum (Fin 2)]) \<noteq> Inr None"
  by (simp add: normalizeEvaluation_JArr)


section \<open>Properties of the extraction and of the fallback\<close>

lemma str_single: "str [c] = [of_char c]"
  by (simp add: str_def)

lemma normalizeOutput_of_null:
  assumes "extractJson parse text = JNull"
  shows "normalizeOutput parse (Some text) = Inr (Ok_response (enforceSingleQuestion text) None)"
proof -
  have "(if text = [] then [] else text) = text" by simp
  then show ?thesis
    using assms
    by (simp add: normalizeOutput_def bind_thrown_def get_prop_opt_def normalizeEvaluation_def)
qed

lemma extractJson_no_open:
  "(of_char CHR ''{'' :: code_unit) \<notin> set text \<Longrightarrow> extractJson parse text = JNull"
  by (simp add: extractJson_def str_single indexOf_absent)

lemma extractJson_no_close:
  "(of_char CHR ''}'' :: code_unit) \<notin> set text \<Longrightarrow> extractJson parse text = JNull"
  by (simp add: extractJson_def str_single lastIndexOf_def find_last_single_None [THEN iffD2])

lemma extractJson_parse_fails:
  "parse (slice text (indexOf text (str ''{'') 0) (lastIndexOf text (str ''}'') + 1)) = Inl e
   \<Longrightarrow> extractJson parse text = JNull"
  by (simp add: extractJson_def Let_def)

lemma extractJson_reversed:
  "lastIndexOf text (str ''}'') \<le> indexOf text (str ''{'') 0 \<Longrightarrow> extractJson parse text = JNull"
  by (simp add: extractJson_def Let_def)

text \<open>
  C2. When the raw text holds no opening brace, or no closing brace, or \<open>JSON.parse\<close>
  throws on the substring from the first opening brace to the last closing brace, the
  extraction gives \<open>null\<close>, and the normalizer returns normally (no exception) the
  response whose reply is the single-question enforcement of the whole raw text and
  whose evaluation is \<open>null\<close>.
\<close>

theorem normalizeOutput_fallback:
  assumes "(of_char CHR ''{'' :: code_unit) \<notin> set text \<or>
      (of_char CHR ''}'' :: code_unit) \<notin> set text \<or>
      (\<exists>e. parse (slice text (indexOf text (str ''{'') 0) (lastIndexOf text (str ''}'') + 1))
         = Inl e)"
  shows "extractJson parse text = JNull \<and>
     normalizeOutput parse (Some text) = Inr (Ok_response (enforceSingleQuestion text) None)"
proof -
  from assms have "extractJson parse text = JNull"
    by (auto intro: extractJson_no_open extractJson_no_close extractJson_parse_fails)
  then show ?thesis
    by (simp add: normalizeOutput_of_null)
qed

theorem normalizeOutput_fallback_witness:
  "(of_char CHR ''{'' :: code_unit) \<notin> set (str ''No tengo una respuesta clara.'') \<and>
   normalizeOutput (\<lambda>candidate. Inl (Error (str ''Unexpected token'')))
       (Some (str ''No tengo una respuesta clara.'')) =
     Inr (Ok_response (str ''No tengo una respuesta clara.'') None) \<and>
   slice (str ''Hola {reply: uno? dos?} fin'')
       (indexOf (str ''Hola {reply: uno? dos?} fin'') (str ''{'') 0)
       (lastIndexOf (str ''Hola {reply: uno? dos?} fin'') (str ''}'') + 1) =
     str ''{reply: uno? dos?}'' \<and>
   normalizeOutput (\<lambda>candidate. Inl (Error (str ''Unexpected token'')))
       (Some (str ''Hola {reply: uno? dos?} fin'')) =
     Inr (Ok_response (str ''Hola {reply: uno?'') None)"
  using normalizeOutput_fallback [of "str ''No tengo una respuesta clara.''"
      "\<lambda>candidate. Inl (Error (str ''Unexpected token''))"]
    normalizeOutput_fallback [of "str ''Hola {reply: uno? dos?} fin''"
      "\<lambda>candidate. Inl (Error (str ''Unexpected token''))"]
  by (simp add: str_def enforceSingleQuestion_def indexOf_def lastIndexOf_def slice_def
      question_mark_def trim_def is_white_def)

text \<open>
  C10. When the raw text holds both braces but its last closing brace is at or before
  its first opening brace, the extraction gives \<open>null\<close> without parsing anything, and
  the response is the one of the absent delimiter: the reply is the single-question
  enforcement of the whole raw text and the evaluation is \<open>null\<close>.
\<close>

theorem normalizeOutput_reversed_braces:
  assumes "(of_char CHR ''{'' :: code_unit) \<in> set text"
    and "(of_char CHR ''}'' :: code_unit) \<in> set text"
    and "lastIndexOf text (str ''}'') \<le> indexOf text (str ''{'') 0"
  shows "extractJson parse text = JNull \<and>
     normalizeOutput parse (Some text) = Inr (Ok_response (enforceSingleQuestion text) None)"
  using assms(3) by (simp add: extractJson_reversed normalizeOutput_of_null)

theorem normalizeOutput_reversed_braces_witness:
  "(of_char CHR ''{'' :: code_unit) \<in> set (str ''} {'') \<and>
   (of_char CHR ''}'' :: code_unit) \<in> set (str ''} {'') \<and>
   indexOf (str ''} {'') (str ''{'') 0 = 2 \<and>
   lastIndexOf (str ''} {'') (str ''}'') = 0 \<and>
   normalizeOutput (\<lambda>candidate. Inr (JObj [(str ''reply'', JStr (str ''no''))]))
       (Some (str ''} {'')) =
     Inr (Ok_response (str ''} {'') None)"
  using normalizeOutput_reversed_braces [of "str ''} {''"
      "\<lambda>candidate. Inr (JObj [(str ''reply'', JStr (str ''no''))])"]
  by (simp add: str_def enforceSingleQuestion_def indexOf_def lastIndexOf_def
      question_mark_def trim_def is_white_def)

section \<open>Properties of the endpoint and of the context builder\<close>

lemma asChatRequest_object: "asChatRequest body = Some b \<Longrightarrow> \<exists>kvs. body = JObj kvs"
  by (cases body) (simp_all add: asChatRequest_def)

text \<open>
  C6, as the code has it. A credential is present when it is truthy (for a string:
  not empty). With no server key, a request whose body is not JSON is rejected by
  \<open>req.json()\<close> and a \<open>null\<close> body makes the read of \<open>body.apiKey\<close> throw, both
  before the credential guard; for every other parsed body whose \<open>apiKey\<close> is not
  present, the endpoint makes no upstream call and answers with status 400 and the
  error message \<open>"Missing OPENAI_API_KEY"\<close>. In none of these cases is an upstream
  call made. When the server key is present it is the key used, whatever the request
  supplies: line 111 resolves to it for every body, and for a body of the declared
  type the one upstream call carries it.
\<close>

theorem POST_credential:
  "((OPENAI_API_KEY e = None \<or> OPENAI_API_KEY e = Some []) \<longrightarrow>
      POST e (Inl rejection) parse create = Throws rejection \<and>
      (\<exists>t. POST e (Inr JNull) parse create = Throws t) \<and>
      (\<forall>body. body \<noteq> JNull \<and> body \<noteq> JUndefined \<and>
         (\<forall>v. get_prop body (str ''apiKey'') = Inr v \<longrightarrow> \<not> truthy v) \<longrightarrow>
         POST e (Inr body) parse create =
           Responds [] (Error_response 400 (str ''Missing OPENAI_API_KEY'')))) \<and>
   (\<forall>k. OPENAI_API_KEY e = Some k \<and> k \<noteq> [] \<longrightarrow>
      (\<forall>body. resolveApiKey e body = Inr (JStr k)) \<and>
      (\<forall>body b. asChatRequest body = Some b \<longrightarrow>
         (\<exists>c resp. POST e (Inr body) parse create = Responds [c] resp \<and>
            call_apiKey c = k \<and> call_input c = buildInput b)))"
proof (intro conjI impI allI)
  assume "OPENAI_API_KEY e = None \<or> OPENAI_API_KEY e = Some []"
  then have r: "\<And>body. resolveApiKey e body = get_prop body (str ''apiKey'')"
    by (auto simp: resolveApiKey_def)
  show "POST e (Inl rejection) parse create = Throws rejection"
    by (simp add: POST_def)
  show "\<exists>t. POST e (Inr JNull) parse create = Throws t"
    by (simp add: POST_def r)
  fix body
  assume b: "body \<noteq> JNull \<and> body \<noteq> JUndefined \<and>
      (\<forall>v. get_prop body (str ''apiKey'') = Inr v \<longrightarrow> \<not> truthy v)"
  then obtain v where v: "get_prop body (str ''apiKey'') = Inr v"
    by (cases body) simp_all
  with b have "\<not> truthy v" by simp
  with v show "POST e (Inr body) parse create =
      Responds [] (Error_response 400 (str ''Missing OPENAI_API_KEY''))"
    by (simp add: POST_def r)
next
  fix k body
  assume k: "OPENAI_API_KEY e = Some k \<and> k \<noteq> []"
  then show "resolveApiKey e body = Inr (JStr k)"
    by (simp add: resolveApiKey_def)
next
  fix k body b
  assume k: "OPENAI_API_KEY e = Some k \<and> k \<noteq> []" and b: "asChatRequest body = Some b"
  from k have r: "resolveApiKey e body = Inr (JStr k)"
    by (simp add: resolveApiKey_def)
  from b obtain kvs where "body = JObj kvs"
    by (auto dest: asChatRequest_object)
  then have "\<exists>m. get_prop body (str ''model'') = Inr m"
    by simp
  then show "\<exists>c resp. POST e (Inr body) parse create = Responds [c] resp \<and>
      call_apiKey c = k \<and> call_input c = buildInput b"
    using k b r by (auto simp: POST_def Let_def)
qed

theorem POST_credential_witness:
  "POST \<lparr>OPENAI_API_KEY = None, OPENAI_MODEL = None\<rparr>
     (Inr (JObj [(str ''apiKey'', JStr [])]))
     (\<lambda>candidate. Inl (Error (str ''Unexpected token'')))
     (\<lambda>call. Inr (Some (str ''Hola''))) =
   Responds [] (Error_response 400 (str ''Missing OPENAI_API_KEY'')) \<and>
   POST \<lparr>OPENAI_API_KEY = Some [], OPENAI_MODEL = None\<rparr>
     (Inr (JNum (Fin 5)))
     (\<lambda>candidate. Inl (Error (str ''Unexpected token'')))
     (\<lambda>call. Inr (Some (str ''Hola''))) =
   Responds [] (Error_response 400 (str ''Missing OPENAI_API_KEY'')) \<and>
   resolveApiKey \<lparr>OPENAI_API_KEY = Some (str ''sk-server''), OPENAI_MODEL = None\<rparr>
     (JObj [(str ''apiKey'', JStr (str ''sk-client''))]) = Inr (JStr (str ''sk-server'')) \<and>
   (\<exists>c resp.
      POST \<lparr>OPENAI_API_KEY = Some (str ''sk-server''), OPENAI_MODEL = None\<rparr>
        (Inr (JObj [(str ''apiKey'', JStr (str ''sk-client''))]))
        (\<lambda>candidate. Inl (Error (str ''Unexpected token'')))
        (\<lambda>call. Inr (Some (str ''Hola''))) = Responds [c] resp \<and>
      call_apiKey c = str ''sk-server'')"
proof -
  have d: "asChatRequest (JObj [(str ''apiKey'', JStr (str ''sk-client''))]) =
      Some \<lparr>messages = None, systemPrompt = None, model = None,
        apiKey = Some (str ''sk-client''), taskConfig = None, student = None, start = None\<rparr>"
    by (simp add: asChatRequest_def asMessages_def asString_def asBoolean_def
        asTaskConfig_def asStudentProfile_def own_prop_def str_def)
  have n: "str ''sk-server'' \<noteq> []"
    by (simp add: str_def)
  have none: "\<forall>body. body \<noteq> JNull \<and> body \<noteq> JUndefined \<and>
         (\<forall>v. get_prop body (str ''apiKey'') = Inr v \<longrightarrow> \<not> truthy v) \<longrightarrow>
         POST \<lparr>OPENAI_API_KEY = None, OPENAI_MODEL = None\<rparr> (Inr body)
           (\<lambda>candidate. Inl (Error (str ''Unexpected token'')))
           (\<lambda>call. Inr (Some (str ''Hola''))) =
           Responds [] (Error_response 400 (str ''Missing OPENAI_API_KEY''))"
    using POST_credential [of "\<lparr>OPENAI_API_KEY = None, OPENAI_MODEL = None\<rparr>"
        "Error []" "\<lambda>candidate. Inl (Error (str ''Unexpected token''))"
        "\<lambda>call. Inr (Some (str ''Hola''))"]
    by simp
  have empty: "\<forall>body. body \<noteq> JNull \<and> body \<noteq> JUndefined \<and>
         (\<forall>v. get_prop body (str ''apiKey'') = Inr v \<longrightarrow> \<not> truthy v) \<longrightarrow>
         POST \<lparr>OPENAI_API_KEY = Some [], OPENAI_MODEL = None\<rparr> (Inr body)
           (\<lambda>candidate. Inl (Error (str ''Unexpected token'')))
           (\<lambda>call. Inr (Some (str ''Hola''))) =
           Responds [] (Error_response 400 (str ''Missing OPENAI_API_KEY''))"
    using POST_credential [of "\<lparr>OPENAI_API_KEY = Some [], OPENAI_MODEL = None\<rparr>"
        "Error []" "\<lambda>candidate. Inl (Error (str ''Unexpected token''))"
        "\<lambda>call. Inr (Some (str ''Hola''))"]
    by simp
  have server: "(\<forall>body. resolveApiKey
          \<lparr>OPENAI_API_KEY = Some (str ''sk-server''), OPENAI_MODEL = None\<rparr> body =
          Inr (JStr (str ''sk-server''))) \<and>
      (\<forall>body b. asChatRequest body = Some b \<longrightarrow>
         (\<exists>c resp. POST \<lparr>OPENAI_API_KEY = Some (str ''sk-server''), OPENAI_MODEL = None\<rparr>
            (Inr body) (\<lambda>candidate. Inl (Error (str ''Unexpected token'')))
            (\<lambda>call. Inr (Some (str ''Hola''))) = Responds [c] resp \<and>
            call_apiKey c = str ''sk-server'' \<and> call_input c = buildInput b))"
    using POST_credential [of "\<lparr>OPENAI_API_KEY = Some (str ''sk-server''), OPENAI_MODEL = None\<rparr>"
        "Error []" "\<lambda>candidate. Inl (Error (str ''Unexpected token''))"
        "\<lambda>call. Inr (Some (str ''Hola''))"] n
    by simp
  have 1: "POST \<lparr>OPENAI_API_KEY = None, OPENAI_MODEL = None\<rparr>
     (Inr (JObj [(str ''apiKey'', JStr [])]))
     (\<lambda>candidate. Inl (Error (str ''Unexpected token'')))
     (\<lambda>call. Inr (Some (str ''Hola''))) =
     Responds [] (Error_response 400 (str ''Missing OPENAI_API_KEY''))"
    by (rule none [rule_format]) simp
  have 2: "POST \<lparr>OPENAI_API_KEY = Some [], OPENAI_MODEL = None\<rparr>
     (Inr (JNum (Fin 5)))
     (\<lambda>candidate. Inl (Error (str ''Unexpected token'')))
     (\<lambda>call. Inr (Some (str ''Hola''))) =
     Responds [] (Error_response 400 (str ''Missing OPENAI_API_KEY''))"
    by (rule empty [rule_format]) auto
  from server d have 3: "\<exists>c resp.
      POST \<lparr>OPENAI_API_KEY = Some (str ''sk-server''), OPENAI_MODEL = None\<rparr>
        (Inr (JObj [(str ''apiKey'', JStr (str ''sk-client''))]))
        (\<lambda>candidate. Inl (Error (str ''Unexpected token'')))
        (\<lambda>call. Inr (Some (str ''Hola''))) = Responds [c] resp \<and>
      call_apiKey c = str ''sk-server''"
    by blast
  from server have 4: "resolveApiKey
      \<lparr>OPENAI_API_KEY = Some (str ''sk-server''), OPENAI_MODEL = None\<rparr>
      (JObj [(str ''apiKey'', JStr (str ''sk-client''))]) = Inr (JStr (str ''sk-server''))"
    by blast
  from 1 2 3 4 show ?thesis
    by (intro conjI)
qed

text \<open>
  A request that carries no credential is not always answered with the client error:
  with no server key, the body \<open>null\<close> makes the handler throw a TypeError at line
  111, and a body that is not JSON makes it throw the rejection of \<open>req.json()\<close>.
\<close>

theorem POST_null_body_counterexample:
  "POST \<lparr>OPENAI_API_KEY = None, OPENAI_MODEL = None\<rparr> (Inr JNull)
     (\<lambda>candidate. Inl (Error (str ''Unexpected token'')))
     (\<lambda>call. Inr (Some (str ''Hola''))) =
   Throws (Error (str ''Cannot read properties of null (reading '' @ [0x27] @
     str ''apiKey'' @ [0x27] @ str '')'')) \<and>
   POST \<lparr>OPENAI_API_KEY = None, OPENAI_MODEL = None\<rparr>
     (Inl (Error (str ''Unexpected end of JSON input'')))
     (\<lambda>candidate. Inl (Error (str ''Unexpected token'')))
     (\<lambda>call. Inr (Some (str ''Hola''))) =
   Throws (Error (str ''Unexpected end of JSON input''))"
  by (simp add: POST_def resolveApiKey_def)

text \<open>
  C7. The segments are, in this order: the trimmed teacher prompt when it is not empty
  after trimming; the context block; the start instruction when the start flag is set;
  the format instructions; then the messages of the history in their order, each
  reduced to its role and content. The first four carry the role \<open>system\<close>. The
  result is a function of these inputs alone: the model identifier and the key of the
  request do not change it.
\<close>

theorem buildInput_order:
  "buildInput body =
     (case systemPrompt body of
        None \<Rightarrow> []
      | Some p \<Rightarrow> if trim p = [] then [] else [\<lparr>role = System, content = trim p\<rparr>]) @
     [\<lparr>role = System, content = buildContext (taskConfig body) (student body)\<rparr>] @
     (if start body = Some True
      then [\<lparr>role = System,
             content = str ''Inicia la conversacion con la primera pregunta al alumno.''\<rparr>]
      else []) @
     [\<lparr>role = System, content = FORMAT_INSTRUCTIONS\<rparr>] @
     (case messages body of
        None \<Rightarrow> []
      | Some ms \<Rightarrow> map (\<lambda>m. \<lparr>role = role m, content = content m\<rparr>) ms) \<and>
   buildInput (body\<lparr>model := any_model, apiKey := any_key\<rparr>) = buildInput body"
  by (simp add: buildInput_def push_def Let_def split: option.split)

theorem buildInput_order_witness:
  "buildInput
     \<lparr>messages = Some
        [\<lparr>role = Assistant, content = str ''Que es la lluvia?'', id = str ''1-a'', ts = 1\<rparr>,
         \<lparr>role = User, content = str ''Agua que cae'', id = str ''2-b'', ts = 2\<rparr>],
      systemPrompt = Some (str '' Eres TutorNeo. ''), model = None, apiKey = None,
      taskConfig = None, student = None, start = Some True\<rparr> =
   [\<lparr>role = System, content = str ''Eres TutorNeo.''\<rparr>,
    \<lparr>role = System, content = buildContext None None\<rparr>,
    \<lparr>role = System,
     content = str ''Inicia la conversacion con la primera pregunta al alumno.''\<rparr>,
    \<lparr>role = System, content = FORMAT_INSTRUCTIONS\<rparr>,
    \<lparr>role = Assistant, content = str ''Que es la lluvia?''\<rparr>,
    \<lparr>role = User, content = str ''Agua que cae''\<rparr>]"
proof -
  have "trim (str '' Eres TutorNeo. '') = str ''Eres TutorNeo.''"
    by (simp add: trim_def is_white_def str_def)
  then show ?thesis
    using buildInput_order [of
      "\<lparr>messages = Some
          [\<lparr>role = Assistant, content = str ''Que es la lluvia?'', id = str ''1-a'', ts = 1\<rparr>,
           \<lparr>role = User, content = str ''Agua que cae'', id = str ''2-b'', ts = 2\<rparr>],
        systemPrompt = Some (str '' Eres TutorNeo. ''), model = None, apiKey = None,
        taskConfig = None, student = None, start = Some True\<rparr>" None None]
    by (simp add: str_def)
qed

text \<open>
  C8, as the code has it. The context block is the lines below joined by line feeds:
  the header \<open>"Contexto de tarea:"\<close>; when the task configuration is present, its five
  fields (topic, objective, subject, grade, duration) in this order, each with \<open>"N/D"\<close>
  for a missing field; the header \<open>"Perfil del alumno:"\<close>; when the student profile
  is present, its five fields under the same policy. When the task configuration or
  the student profile itself is absent, its header stands alone, with no field line.
\<close>

theorem buildContext_fields:
  "buildContext task stud = join newline
     ([str ''Contexto de tarea:''] @
      (case task of
         None \<Rightarrow> []
       | Some t \<Rightarrow>
           [str ''- Tema: '' @ (case topic t of None \<Rightarrow> str ''N/D'' | Some x \<Rightarrow> x),
            str ''- Objetivo: '' @ (case objective t of None \<Rightarrow> str ''N/D'' | Some x \<Rightarrow> x),
            str ''- Materia: '' @ (case subject t of None \<Rightarrow> str ''N/D'' | Some x \<Rightarrow> x),
            str ''- Grado: '' @ (case grade t of None \<Rightarrow> str ''N/D'' | Some x \<Rightarrow> x),
            str ''- Duracion estimada: '' @
              (case durationMin t of None \<Rightarrow> str ''N/D'' | Some x \<Rightarrow> x) @ str '' min'']) @
      [str ''Perfil del alumno:''] @
      (case stud of
         None \<Rightarrow> []
       | Some p \<Rightarrow>
           [str ''- Nombre: '' @ (case name p of None \<Rightarrow> str ''N/D'' | Some x \<Rightarrow> x),
            str ''- Edad: '' @ (case age p of None \<Rightarrow> str ''N/D'' | Some x \<Rightarrow> x),
            str ''- Curso: '' @ (case course p of None \<Rightarrow> str ''N/D'' | Some x \<Rightarrow> x),
            str ''- Fortalezas: '' @ (case strengths p of None \<Rightarrow> str ''N/D'' | Some x \<Rightarrow> x),
            str ''- Dificultades: '' @
              (case challenges p of None \<Rightarrow> str ''N/D'' | Some x \<Rightarrow> x)]))"
  by (simp add: buildContext_def contextLines_def nullish_def
      split: option.split del: join.simps)

theorem buildContext_fields_witness:
  "buildContext
     (Some \<lparr>topic = Some (str ''Agua''), objective = None, subject = None, grade = None,
        durationMin = Some (str ''10'')\<rparr>) None =
   str ''Contexto de tarea:'' @ [0xA] @ str ''- Tema: Agua'' @ [0xA] @
   str ''- Objetivo: N/D'' @ [0xA] @ str ''- Materia: N/D'' @ [0xA] @
   str ''- Grado: N/D'' @ [0xA] @ str ''- Duracion estimada: 10 min'' @ [0xA] @
   str ''Perfil del alumno:''"
  using buildContext_fields [of
      "Some \<lparr>topic = Some (str ''Agua''), objective = None, subject = None, grade = None,
         durationMin = Some (str ''10'')\<rparr>" None]
  by (simp add: newline_def str_def)

text \<open>
  With no task configuration and no student profile the block is the two headers:
  it holds no \<open>"N/D"\<close> and no field line.
\<close>

theorem buildContext_absent_counterexample:
  "buildContext None None = str ''Contexto de tarea:'' @ [0xA] @ str ''Perfil del alumno:'' \<and>
   indexOf (buildContext None None) (str ''N/D'') 0 = - 1 \<and>
   indexOf (buildContext None None) (str ''- Tema:'') 0 = - 1"
  by (simp add: buildContext_def contextLines_def newline_def str_def indexOf_def)

section \<open>Properties of the chat state\<close>

text \<open>
  C9. A turn whose response carries a \<open>null\<close> evaluation, or whose request fails,
  leaves the stored evaluation record as it was, in \<open>handleSend\<close>, in
  \<open>handleStartConversation\<close> and in their common continuation applied to any state.
  No turn clears a stored record, whatever the request returns. \<open>handleResetChat\<close>
  clears the message history and the evaluation record together.
\<close>

theorem evaluation_kept:
  "st_evaluation (finishTurn s new_id now now' (Inr (text, None))) = st_evaluation s \<and>
   st_evaluation (finishTurn s new_id now now' (Inl err)) = st_evaluation s \<and>
   st_evaluation (handleSend s user_id user_ts new_id now now' (Inr (Ok_response text None)))
     = st_evaluation s \<and>
   st_evaluation (handleStartConversation s new_id now now' (Inr (Ok_response text None)))
     = st_evaluation s \<and>
   (st_evaluation s \<noteq> None \<longrightarrow>
      st_evaluation (finishTurn s new_id now now' outcome) \<noteq> None \<and>
      st_evaluation (handleSend s user_id user_ts new_id now now' fetched) \<noteq> None \<and>
      st_evaluation (handleStartConversation s new_id now now' fetched) \<noteq> None) \<and>
   st_messages (handleResetChat s) = [] \<and> st_evaluation (handleResetChat s) = None"
  by (auto simp: finishTurn_def handleSend_def handleStartConversation_def handleResetChat_def
      requestTutorReply_def bind_thrown_def Let_def
      split: sum.split thrown.split option.split response.split prod.split)

theorem evaluation_kept_witness:
  "st_evaluation (handleSend
      \<lparr>st_messages = [],
       st_evaluation = Some \<lparr>status = str ''Aprobado'', score = Fin 80, weakConcepts = [],
         nextActions = [], summary = JUndefined, updatedAt = 5\<rparr>,
       st_apiError = [], st_input = str ''hola'', st_isSending = False,
       st_useLiveApi = True\<rparr>
      (str ''1-a'') 6 (str ''2-b'') 7 8 (Inr (Ok_response (str ''Bien'') None))) =
     Some \<lparr>status = str ''Aprobado'', score = Fin 80, weakConcepts = [],
       nextActions = [], summary = JUndefined, updatedAt = 5\<rparr> \<and>
   st_evaluation (handleSend
      \<lparr>st_messages = [],
       st_evaluation = Some \<lparr>status = str ''Aprobado'', score = Fin 80, weakConcepts = [],
         nextActions = [], summary = JUndefined, updatedAt = 5\<rparr>,
       st_apiError = [], st_input = str ''hola'', st_isSending = False,
       st_useLiveApi = True\<rparr>
      (str ''1-a'') 6 (str ''2-b'') 7 8 (Inl NonError)) \<noteq> None \<and>
   st_evaluation (handleResetChat
      \<lparr>st_messages = [],
       st_evaluation = Some \<lparr>status = str ''Aprobado'', score = Fin 80, weakConcepts = [],
         nextActions = [], summary = JUndefined, updatedAt = 5\<rparr>,
       st_apiError = [], st_input = str ''hola'', st_isSending = False,
       st_useLiveApi = True\<rparr>) = None"
  using evaluation_kept [of
      "\<lparr>st_messages = [],
       st_evaluation = Some \<lparr>status = str ''Aprobado'', score = Fin 80, weakConcepts = [],
         nextActions = [], summary = JUndefined, updatedAt = 5\<rparr>,
       st_apiError = [], st_input = str ''hola'', st_isSending = False,
       st_useLiveApi = True\<rparr>"
      "str ''2-b''" 7 8 "str ''Bien''" NonError "str ''1-a''" 6 "Inl NonError" "Inl NonError"]
  by simp

end
